theory Spec2Isabelle
  imports Complex_Main "HOL-Library.AList" "HOL-Library.Sublist"
begin

section \<open>Conventions of the embedding\<close>

text \<open>
  The repository is Python. Its numeric code runs on IEEE double-precision \<^verbatim>\<open>float\<close>
  values; this development idealises them as \<^typ>\<open>real\<close>, so that \<^verbatim>\<open>x * 1.5\<close> is exact
  multiplication, \<^verbatim>\<open>x ** 2.5\<close> on a non-negative base is \<^const>\<open>powr\<close>, \<^verbatim>\<open>x ** n\<close> with
  an integer \<^verbatim>\<open>n\<close> is \<^const>\<open>power\<close>, and \<^verbatim>\<open>np.sqrt\<close> is \<^const>\<open>sqrt\<close>. Rounding, overflow
  to infinity and NaN are outside the model. Python integers are \<^typ>\<open>int\<close>, or
  \<^typ>\<open>nat\<close> where the value is picked from a list of positive literals. Every
  \<^verbatim>\<open>raise\<close> the modelled code can reach on real inputs is a value of \<open>py_error\<close>.
  \<open>NotReal\<close> is no exception: it marks a result that Python does compute but that is no
  real number (\<^verbatim>\<open>nan\<close> or \<^verbatim>\<open>inf\<close> from numpy, a complex number from \<^verbatim>\<open>**\<close>), which
  the idealisation cannot represent.
\<close>

datatype validation_msg =
  CylinderDiameterNotPositive
| ConeOutletNotSmaller

datatype py_error =
  ZeroDivisionError
| ValueError validation_msg
| NotReal

section \<open>\<^verbatim>\<open>src/modeler/cyclone_modeler.py\<close>: the geometry record\<close>

text \<open>
  A nozzle as \<^verbatim>\<open>_calculate_geometry\<close> stores it: the keys \<^verbatim>\<open>tag\<close>, \<^verbatim>\<open>service\<close>,
  \<^verbatim>\<open>diameter\<close>, \<^verbatim>\<open>rating\<close> and \<^verbatim>\<open>type\<close> of the dictionary it appends.
\<close>

record modeler_nozzle =
  mn_tag :: string
  mn_service :: string
  mn_diameter :: real
  mn_rating :: string
  mn_type :: string

text \<open>
  The dataclass \<^verbatim>\<open>CycloneGeometry\<close>. The field \<^verbatim>\<open>nozzles\<close> defaults to \<^verbatim>\<open>None\<close>, hence
  the option type; \<^verbatim>\<open>wall_thickness\<close> defaults to \<^verbatim>\<open>10.0\<close>.
\<close>

record CycloneGeometry =
  cylinder_diameter :: real
  cylinder_height :: real
  cone_height :: real
  cone_outlet_diameter :: real
  inlet_width :: real
  inlet_height :: real
  inlet_length :: real
  gas_outlet_diameter :: real
  gas_outlet_height :: real
  solids_outlet_diameter :: real
  wall_thickness :: real
  nozzles :: "modeler_nozzle list option"

text \<open>
  \<^verbatim>\<open>_validate\<close>: two checks in the source's order, each raising \<^verbatim>\<open>ValueError\<close>.
\<close>

definition validate :: "CycloneGeometry \<Rightarrow> py_error + unit" where
  "validate g =
     (if cylinder_diameter g \<le> 0 then Inl (ValueError CylinderDiameterNotPositive)
      else if cone_outlet_diameter g \<ge> cylinder_diameter g
        then Inl (ValueError ConeOutletNotSmaller)
      else Inr ())"

text \<open>
  \<^verbatim>\<open>__post_init__\<close>, run by the generated constructor after it has stored the
  fields: a missing nozzle list becomes the empty list, then the record is validated.
  The argument is the record of the stored fields; the result is the constructed object
  or the exception.
\<close>

definition post_init :: "CycloneGeometry \<Rightarrow> py_error + CycloneGeometry" where
  "post_init g =
     (let g' = (if nozzles g = None then g\<lparr>nozzles := Some []\<rparr> else g)
      in case validate g' of Inl e \<Rightarrow> Inl e | Inr _ \<Rightarrow> Inr g')"

section \<open>\<^verbatim>\<open>src/modeler/cyclone_modeler.py\<close>: \<^verbatim>\<open>_calculate_geometry\<close>\<close>

text \<open>
  An entry of the \<^verbatim>\<open>dimensions\<close> dictionary: the key is absent, holds a value that
  \<^verbatim>\<open>float()\<close> accepts, or holds one on which \<^verbatim>\<open>float()\<close> raises \<^verbatim>\<open>ValueError\<close> or
  \<^verbatim>\<open>TypeError\<close>.
\<close>

datatype dim_entry = Absent | Number real | Unparseable

text \<open>
  The \<^verbatim>\<open>try\<close> block that reads the inlet size. \<^verbatim>\<open>None\<close> stands for a missing or falsy
  \<^verbatim>\<open>dimensions\<close> entry. The height is read first; an exception leaves the block, keeping
  what was assigned before it and the defaults \<^verbatim>\<open>279.0\<close> and \<^verbatim>\<open>140.0\<close> for the rest.
  The result is \<open>(inlet_height, inlet_width)\<close>.
\<close>

fun read_inlet :: "(dim_entry \<times> dim_entry) option \<Rightarrow> real \<times> real" where
  "read_inlet None = (279, 140)"
| "read_inlet (Some (Unparseable, w)) = (279, 140)"
| "read_inlet (Some (Absent, Number w)) = (279, w)"
| "read_inlet (Some (Absent, w)) = (279, 140)"
| "read_inlet (Some (Number h, Number w)) = (h, w)"
| "read_inlet (Some (Number h, w)) = (h, 140)"

text \<open>
  The body of \<^verbatim>\<open>_calculate_geometry\<close> from the comment "standard cyclone ratios" on,
  as a function of the local variables it reads: \<^verbatim>\<open>base_diameter\<close>, the inlet size and
  the converted nozzle list. It ends in the constructor call, so it can raise.
\<close>

definition geometry_from_base ::
  "real \<Rightarrow> real \<Rightarrow> real \<Rightarrow> modeler_nozzle list \<Rightarrow> py_error + CycloneGeometry" where
  "geometry_from_base base_diameter inlet_h inlet_w nzs =
     (let cyl_diameter = base_diameter;
          cyl_height = cyl_diameter * 1.5;
          c_height = cyl_diameter * 2.5;
          c_outlet_diameter = cyl_diameter * 0.375;
          g_outlet_diameter = cyl_diameter * 0.5;
          g_outlet_height = cyl_diameter * 0.5;
          s_outlet_diameter = c_outlet_diameter;
          i_length = cyl_diameter * 0.5
      in post_init \<lparr>
           cylinder_diameter = cyl_diameter,
           cylinder_height = cyl_height,
           cone_height = c_height,
           cone_outlet_diameter = c_outlet_diameter,
           inlet_width = inlet_w,
           inlet_height = inlet_h,
           inlet_length = i_length,
           gas_outlet_diameter = g_outlet_diameter,
           gas_outlet_height = g_outlet_height,
           solids_outlet_diameter = s_outlet_diameter,
           wall_thickness = 10.0,
           nozzles = Some nzs \<rparr>)"

text \<open>
  \<^verbatim>\<open>_calculate_geometry\<close> itself: the base diameter is the literal \<^verbatim>\<open>279.0\<close>. The
  conversion of the nozzle dictionaries (inches to millimetres) is not modelled; its
  result is the parameter \<open>nzs\<close>.
\<close>

definition calculate_geometry ::
  "(dim_entry \<times> dim_entry) option \<Rightarrow> modeler_nozzle list \<Rightarrow> py_error + CycloneGeometry" where
  "calculate_geometry dims nzs =
     (case read_inlet dims of (inlet_h, inlet_w) \<Rightarrow>
        geometry_from_base 279.0 inlet_h inlet_w nzs)"

section \<open>\<^verbatim>\<open>src/modeler/freecad_cyclone_modeler.py\<close>: \<^verbatim>\<open>_calculate_precise_dimensions\<close>\<close>

text \<open>The dictionary the method returns, one field per key.\<close>

record precise_dimensions =
  fc_cylinder_diameter :: real
  fc_cylinder_height :: real
  fc_cone_height :: real
  fc_cone_outlet_diameter :: real
  fc_wall_thickness :: real
  fc_inlet_width :: real
  fc_inlet_height :: real
  fc_inlet_length :: real
  fc_gas_outlet_diameter :: real
  fc_gas_outlet_height :: real
  fc_gas_outlet_extension :: real
  fc_solids_outlet_diameter :: real
  fc_total_height :: real

text \<open>
  The method from \<^verbatim>\<open>cylinder_diameter = base_diameter\<close> on, as a function of
  \<^verbatim>\<open>base_diameter\<close> and the inlet size. No validation happens here.
\<close>

definition precise_from_base :: "real \<Rightarrow> real \<Rightarrow> real \<Rightarrow> precise_dimensions" where
  "precise_from_base base_diameter inlet_h inlet_w =
     (let cyl_diameter = base_diameter;
          cyl_height = cyl_diameter * 1.5;
          c_height = cyl_diameter * 2.5;
          c_outlet_diameter = cyl_diameter * 0.375;
          g_outlet_diameter = cyl_diameter * 0.5;
          g_outlet_height = cyl_diameter * 0.625;
          g_outlet_extension = cyl_diameter * 0.5;
          w_thickness = 12.7
      in \<lparr> fc_cylinder_diameter = cyl_diameter,
           fc_cylinder_height = cyl_height,
           fc_cone_height = c_height,
           fc_cone_outlet_diameter = c_outlet_diameter,
           fc_wall_thickness = w_thickness,
           fc_inlet_width = inlet_w,
           fc_inlet_height = inlet_h,
           fc_inlet_length = cyl_diameter * 0.4,
           fc_gas_outlet_diameter = g_outlet_diameter,
           fc_gas_outlet_height = g_outlet_height,
           fc_gas_outlet_extension = g_outlet_extension,
           fc_solids_outlet_diameter = c_outlet_diameter,
           fc_total_height = cyl_height + c_height \<rparr>)"

text \<open>
  \<^verbatim>\<open>_calculate_precise_dimensions\<close>: \<^verbatim>\<open>base_diameter = model_size * 25.4\<close>, where
  \<^verbatim>\<open>model_size\<close> is the integer parsed from the \<^verbatim>\<open>model\<close> entry (default \<^verbatim>\<open>'11'\<close>).
  The parse and the two dictionary lookups happen before; their results are the
  parameters.
\<close>

definition calculate_precise_dimensions :: "int \<Rightarrow> real \<Rightarrow> real \<Rightarrow> precise_dimensions" where
  "calculate_precise_dimensions model_size inlet_h inlet_w =
     precise_from_base (of_int model_size * 25.4) inlet_h inlet_w"

section \<open>\<^verbatim>\<open>app.py\<close>: the performance formulas of the dashboard\<close>

text \<open>
  The dashboard reads a JSON object written by the extractor, which drops every entry
  whose value is \<^verbatim>\<open>None\<close>; the numeric entries are modelled as a map from key to value.
  \<^verbatim>\<open>data.get(key, default)\<close> is \<open>data_get\<close>.
\<close>

type_synonym json_data = "string \<rightharpoonup> real"

definition data_get :: "json_data \<Rightarrow> string \<Rightarrow> real \<Rightarrow> real" where
  "data_get data k dflt = (case data k of None \<Rightarrow> dflt | Some v \<Rightarrow> v)"

text \<open>
  \<^verbatim>\<open>calculate_cut_size(flow_ratio, base_d50=5.0)\<close>. \<^verbatim>\<open>np.sqrt\<close> gives \<^verbatim>\<open>nan\<close> on a
  negative argument and the division by its zero gives \<^verbatim>\<open>inf\<close>, neither raises.
\<close>

definition calculate_cut_size :: "real \<Rightarrow> real \<Rightarrow> py_error + real" where
  "calculate_cut_size flow_ratio base_d50 =
     (if flow_ratio \<le> 0 then Inl NotReal else Inr (base_d50 / sqrt flow_ratio))"

text \<open>
  \<^verbatim>\<open>calculate_efficiency(particle_size, d50)\<close> on Python scalars, with the local slope
  parameter \<^verbatim>\<open>n = 2.5\<close>: the division raises on a zero particle size, and a negative
  ratio to the power \<^verbatim>\<open>2.5\<close> is a complex number.
\<close>

definition calculate_efficiency :: "real \<Rightarrow> real \<Rightarrow> py_error + real" where
  "calculate_efficiency particle_size d50 =
     (let n = 2.5 in
      if particle_size = 0 then Inl ZeroDivisionError
      else if d50 / particle_size < 0 then Inl NotReal
      else Inr (100 / (1 + (d50 / particle_size) powr n)))"

text \<open>The three base values that tab 3 reads and the later tabs reuse.\<close>

definition base_flow :: "json_data \<Rightarrow> real" where
  "base_flow data = data_get data ''flow_rate'' 671"

definition base_dp :: "json_data \<Rightarrow> real" where
  "base_dp data = data_get data ''pressure_drop'' 0.357"

definition base_velocity :: "json_data \<Rightarrow> real" where
  "base_velocity data = data_get data ''inlet_velocity'' 20"

subsection \<open>Tab 2: design margins\<close>

text \<open>
  \<^verbatim>\<open>margin_p\<close> and \<^verbatim>\<open>margin_t\<close>; the division raises when the operating value is zero.
\<close>

definition margin_p :: "json_data \<Rightarrow> py_error + real" where
  "margin_p data =
     (let design_p = data_get data ''design_pressure'' 24.6;
          oper_p = data_get data ''pressure'' 10.2
      in if oper_p = 0 then Inl ZeroDivisionError
         else Inr (((design_p - oper_p) / oper_p) * 100))"

definition margin_t :: "json_data \<Rightarrow> py_error + real" where
  "margin_t data =
     (let design_t = data_get data ''design_temperature'' 140;
          oper_t = data_get data ''temperature'' 82.2
      in if oper_t = 0 then Inl ZeroDivisionError
         else Inr (((design_t - oper_t) / oper_t) * 100))"

subsection \<open>Tab 3: performance under a changed flow\<close>

record performance =
  flow_ratio :: real
  new_velocity :: real
  new_dp :: real
  eff_change :: real
  new_eff :: real

text \<open>
  The calculation of tab 3 for the slider value \<^verbatim>\<open>new_flow\<close> (an integer). The first
  division raises when the base flow is zero.
\<close>

definition tab3_performance :: "json_data \<Rightarrow> int \<Rightarrow> py_error + performance" where
  "tab3_performance data new_flow =
     (if base_flow data = 0 then Inl ZeroDivisionError
      else
        let ratio = of_int new_flow / base_flow data;
            velocity = base_velocity data * ratio;
            dp = base_dp data * ratio ^ 2;
            change = - 2 * \<bar>ratio - 1\<bar>
        in Inr \<lparr> flow_ratio = ratio,
                 new_velocity = velocity,
                 new_dp = dp,
                 eff_change = change,
                 new_eff = max 85 (data_get data ''efficiency'' 99.2 + change) \<rparr>)"

subsection \<open>Tab 4: parallel and series operation\<close>

record parallel_units =
  flow_per_unit :: real
  velocity_per_unit :: real
  dp_per_unit :: real
  d50_parallel :: real
  eff_10um :: real

text \<open>
  The branch \<^verbatim>\<open>if n_parallel > 1\<close>; \<^verbatim>\<open>n_parallel\<close> is picked from \<^verbatim>\<open>[1, 2, 3, 4]\<close>. The
  cut size is computed with the default \<^verbatim>\<open>base_d50 = 5.0\<close>. \<open>None\<close> is the branch not
  taken.
\<close>

definition tab4_parallel :: "json_data \<Rightarrow> nat \<Rightarrow> py_error + parallel_units option" where
  "tab4_parallel data n_parallel =
     (if n_parallel > 1 then
        (case calculate_cut_size (1 / real n_parallel) 5.0 of
           Inl e \<Rightarrow> Inl e
         | Inr d50 \<Rightarrow>
            (case calculate_efficiency 10 d50 of
               Inl e \<Rightarrow> Inl e
             | Inr eff \<Rightarrow>
                Inr (Some \<lparr> flow_per_unit = base_flow data / real n_parallel,
                             velocity_per_unit = base_velocity data / real n_parallel,
                             dp_per_unit = base_dp data * (1 / real n_parallel) ^ 2,
                             d50_parallel = d50,
                             eff_10um = eff \<rparr>)))
      else Inr None)"

text \<open>Running a list of fallible computations in order, stopping at the first failure.\<close>

fun collect :: "('e + 'a) list \<Rightarrow> 'e + 'a list" where
  "collect [] = Inr []"
| "collect (Inl e # rs) = Inl e"
| "collect (Inr x # rs) = (case collect rs of Inl e \<Rightarrow> Inl e | Inr xs \<Rightarrow> Inr (x # xs))"

record series_stages =
  total_dp :: real
  stage_eff :: real
  total_eff :: real
  particle_eff_total :: "real list"

text \<open>
  The branch \<^verbatim>\<open>if n_series > 1\<close>; \<^verbatim>\<open>n_series\<close> is picked from \<^verbatim>\<open>[1, 2, 3]\<close>. The loop over
  \<^verbatim>\<open>particle_sizes = [1, 5, 10, 20]\<close> computes \<^verbatim>\<open>eff_total\<close> for each size.
\<close>

definition tab4_series :: "json_data \<Rightarrow> nat \<Rightarrow> py_error + series_stages option" where
  "tab4_series data n_series =
     (if n_series > 1 then
        let dp = base_dp data * real n_series;
            stage = data_get data ''efficiency'' 99.2 / 100;
            total = 1 - (1 - stage) ^ n_series
        in case collect (map (\<lambda>size.
                    case calculate_efficiency size 5.0 of
                      Inl e \<Rightarrow> Inl e
                    | Inr eff \<Rightarrow> Inr (1 - (1 - eff / 100) ^ n_series))
                  [1, 5, 10, 20]) of
             Inl e \<Rightarrow> Inl e
           | Inr effs \<Rightarrow>
              Inr (Some \<lparr> total_dp = dp, stage_eff = stage, total_eff = total,
                           particle_eff_total = effs \<rparr>)
      else Inr None)"

subsection \<open>Tab 6: blockage and erosion\<close>

record blocked_inlet =
  area_factor :: real
  blocked_velocity :: real
  blocked_dp :: real

text \<open>
  The branch \<^verbatim>\<open>if blockage > 0\<close>; the slider offers the integers 0 to 50. A blockage of
  100 would make the area factor zero and the first division raise.
\<close>

definition tab6_blockage :: "json_data \<Rightarrow> int \<Rightarrow> py_error + blocked_inlet option" where
  "tab6_blockage data blockage =
     (if blockage > 0 then
        let factor = 1 - of_int blockage / 100
        in if factor = 0 then Inl ZeroDivisionError
           else Inr (Some \<lparr> area_factor = factor,
                             blocked_velocity = base_velocity data / factor,
                             blocked_dp = base_dp data / (factor ^ 2) \<rparr>)
      else Inr None)"

record wear_prediction =
  erosion_rate :: real
  thickness_loss :: real
  eff_degradation :: real
  predicted_eff :: real
  inspection_interval :: int

text \<open>
  The branch \<^verbatim>\<open>if operating_hours > 0\<close>; the number input offers the integers 0 to
  50000. Nothing in it can raise.
\<close>

definition tab6_erosion :: "json_data \<Rightarrow> int \<Rightarrow> wear_prediction option" where
  "tab6_erosion data operating_hours =
     (if operating_hours > 0 then
        let rate = (base_velocity data / 20) ^ 3;
            loss = rate * (of_int operating_hours / 8760);
            degradation = min 10 (loss * 0.5)
        in Some \<lparr> erosion_rate = rate,
                   thickness_loss = loss,
                   eff_degradation = degradation,
                   predicted_eff = max 80 (data_get data ''efficiency'' 99.2 - degradation),
                   inspection_interval =
                     (if base_velocity data > 22 then 3
                      else if base_velocity data > 20 then 6 else 12) \<rparr>
      else None)"

subsection \<open>Tab 6: the composite risk score\<close>

text \<open>The keys of the dictionary \<^verbatim>\<open>risk_scores\<close>, in insertion order.\<close>

datatype risk_factor =
  PressureMargin | TemperatureMargin | InletVelocity | PressureDrop | Efficiency

text \<open>
  The dictionary \<^verbatim>\<open>risk_scores\<close>, built from the two margins of tab 2 and the base
  values, as the list of its items.
\<close>

definition risk_scores :: "real \<Rightarrow> real \<Rightarrow> json_data \<Rightarrow> (risk_factor \<times> int) list" where
  "risk_scores mp mt data =
     [(PressureMargin, if mp > 100 then 100 else (if mp > 50 then 50 else 20)),
      (TemperatureMargin, if mt > 50 then 100 else (if mt > 30 then 50 else 20)),
      (InletVelocity,
         if base_velocity data < 20 then 100 else (if base_velocity data < 22 then 50 else 20)),
      (PressureDrop, if base_dp data < 0.5 then 100 else (if base_dp data < 0.7 then 50 else 20)),
      (Efficiency, if data_get data ''efficiency'' 99.2 > 95 then 100 else 50)]"

text \<open>
  \<^verbatim>\<open>np.mean(list(risk_scores.values()))\<close>. The list built above is never empty; numpy's
  mean of an empty list is \<^verbatim>\<open>nan\<close>.
\<close>

definition avg_risk :: "(risk_factor \<times> int) list \<Rightarrow> py_error + real" where
  "avg_risk scores =
     (if scores = [] then Inl NotReal
      else Inr (of_int (sum_list (map snd scores)) / real (length scores)))"

datatype risk_band = Safe | Caution | Danger

text \<open>
  The final \<^verbatim>\<open>if\<close>/\<^verbatim>\<open>elif\<close>/\<^verbatim>\<open>else\<close>: \<^verbatim>\<open>st.success\<close>, \<^verbatim>\<open>st.warning\<close> or \<^verbatim>\<open>st.error\<close>.
\<close>

definition classify_risk :: "real \<Rightarrow> risk_band" where
  "classify_risk avg = (if avg > 70 then Safe else if avg > 40 then Caution else Danger)"

text \<open>The whole assessment on the data: margins, scores, mean and band.\<close>

definition risk_assessment ::
  "json_data \<Rightarrow> py_error + ((risk_factor \<times> int) list \<times> real \<times> risk_band)" where
  "risk_assessment data =
     (case margin_p data of
        Inl e \<Rightarrow> Inl e
      | Inr mp \<Rightarrow>
         (case margin_t data of
            Inl e \<Rightarrow> Inl e
          | Inr mt \<Rightarrow>
             (let scores = risk_scores mp mt data
              in case avg_risk scores of
                   Inl e \<Rightarrow> Inl e
                 | Inr avg \<Rightarrow> Inr (scores, avg, classify_risk avg))))"

section \<open>\<^verbatim>\<open>src/extractor/pdf_parser.py\<close>: \<^verbatim>\<open>_parse_nozzle_data\<close>\<close>

text \<open>
  Python strings are lists of characters. A nozzle is a dictionary from key to string,
  kept as the list of its items in insertion order. \<^verbatim>\<open>nozzle_map\<close> is a dictionary from
  key to nozzle: assigning to a key that is present replaces the value in place, a new
  key goes to the end, which is what \<^const>\<open>AList.update\<close> does; \<^verbatim>\<open>values()\<close> lists the
  values in that order.
\<close>

type_synonym nozzle = "(string \<times> string) list"

type_synonym nozzle_map = "(string \<times> nozzle) list"

text \<open>The dataclass \<^verbatim>\<open>EquipmentData\<close>; \<^verbatim>\<open>Optional\<close> fields are options.\<close>

record EquipmentData =
  ed_tag_number :: string
  ed_service :: string
  ed_equipment_type :: string
  ed_manufacturer :: "string option"
  ed_model :: "string option"
  ed_flow_rate :: "real option"
  ed_flow_unit :: "string option"
  ed_temperature :: "real option"
  ed_pressure :: "real option"
  ed_density :: "real option"
  ed_design_pressure :: "real option"
  ed_design_temperature :: "real option"
  ed_material :: "string option"
  ed_nozzles :: "nozzle list option"
  ed_efficiency :: "real option"
  ed_pressure_drop :: "real option"
  ed_inlet_velocity :: "real option"
  ed_dimensions :: "(string \<times> string) list option"

text \<open>The double-quote character, the inch mark of the sizes.\<close>

definition dquote :: char where
  "dquote = CHR 0x22"

definition newline :: char where
  "newline = CHR 0x0A"

text \<open>\<^verbatim>\<open>s.split('\n')\<close>: one more piece than there are newlines.\<close>

fun split_newline :: "string \<Rightarrow> string list" where
  "split_newline [] = [[]]"
| "split_newline (c # cs) =
     (if c = newline then [] # split_newline cs
      else (case split_newline cs of
              [] \<Rightarrow> [[c]]
            | l # ls \<Rightarrow> (c # l) # ls))"

text \<open>\<^verbatim>\<open>sub in s\<close> on strings: \<open>sub\<close> occurs in \<open>s\<close> as a contiguous piece.\<close>

fun str_in :: "string \<Rightarrow> string \<Rightarrow> bool" where
  "str_in sub [] = (sub = [])"
| "str_in sub (c # cs) = (prefix sub (c # cs) \<or> str_in sub cs)"

text \<open>
  \<^verbatim>\<open>s.strip()\<close> removes the leading and trailing characters that Python counts as
  whitespace. A character here is a code point below 256; among those the whitespace is
  tab, line feed, vertical tab, form feed, carriage return, the four separators
  \<^verbatim>\<open>0x1c\<close> to \<^verbatim>\<open>0x1f\<close>, space, next line \<^verbatim>\<open>0x85\<close> and no-break space \<^verbatim>\<open>0xa0\<close>.
\<close>

definition is_space :: "char \<Rightarrow> bool" where
  "is_space c = (c \<in> set [CHR 0x09, CHR 0x0A, CHR 0x0B, CHR 0x0C, CHR 0x0D,
                            CHR 0x1C, CHR 0x1D, CHR 0x1E, CHR 0x1F, CHR 0x20,
                            CHR 0x85, CHR 0xA0])"

definition strip :: "string \<Rightarrow> string" where
  "strip s = rev (dropWhile is_space (rev (dropWhile is_space s)))"

text \<open>
  The regular-expression library is not part of the repository. A search with one of
  the two four-group patterns of the method is a parameter of the model: it maps a line
  to \<open>None\<close> (no match) or to the four groups of the first match.
\<close>

type_synonym re_search = "string \<Rightarrow> (string \<times> string \<times> string \<times> string) option"

definition nozzle_412 :: nozzle where
  "nozzle_412 = [(''tag'', ''412''), (''service'', ''Gas Inlet''), (''size'', ''14'' @ [dquote]),
                 (''rating'', ''300#''), (''facing'', ''RF'')]"

definition nozzle_413 :: nozzle where
  "nozzle_413 = [(''tag'', ''413''), (''service'', ''Gas Outlet''), (''size'', ''14'' @ [dquote]),
                 (''rating'', ''300#''), (''facing'', ''RF'')]"

text \<open>
  The nozzle built from the groups of a match, and its key in \<^verbatim>\<open>nozzle_map\<close>; \<open>kind\<close> is
  \<^verbatim>\<open>Solids\<close> or \<^verbatim>\<open>Cleanout\<close>.
\<close>

definition found_nozzle :: "string \<Rightarrow> string \<times> string \<times> string \<times> string \<Rightarrow> nozzle" where
  "found_nozzle kind groups =
     (case groups of (g1, g2, g3, g4) \<Rightarrow>
        [(''service'', kind @ '' '' @ strip g1), (''size'', g2 @ [dquote]),
         (''rating'', g3), (''facing'', g4)])"

definition found_key :: "string \<Rightarrow> string \<times> string \<times> string \<times> string \<Rightarrow> string" where
  "found_key kind groups =
     (case groups of (g1, g2, g3, g4) \<Rightarrow> kind @ ''_'' @ (g2 @ [dquote]))"

text \<open>The body of the loop over the lines: one line, the map before and after.\<close>

definition scan_line :: "re_search \<Rightarrow> re_search \<Rightarrow> nozzle_map \<Rightarrow> string \<Rightarrow> nozzle_map" where
  "scan_line search_solids search_cleanout nozzle_map line =
     (if str_in ''Solids'' line \<and> str_in ''Outlet'' line \<and> str_in [dquote] line then
        (case search_solids line of
           None \<Rightarrow> nozzle_map
         | Some groups \<Rightarrow>
            AList.update (found_key ''Solids'' groups) (found_nozzle ''Solids'' groups) nozzle_map)
      else if str_in ''Cleanout'' line \<and> str_in [dquote] line then
        (case search_cleanout line of
           None \<Rightarrow> nozzle_map
         | Some groups \<Rightarrow>
            AList.update (found_key ''Cleanout'' groups) (found_nozzle ''Cleanout'' groups)
              nozzle_map)
      else nozzle_map)"

text \<open>
  \<^verbatim>\<open>_parse_nozzle_data(self, data)\<close>: \<open>pdf_text\<close> is \<^verbatim>\<open>self.pdf_text\<close>, the result is
  \<open>data\<close> after the method has assigned \<^verbatim>\<open>data.nozzles\<close>.
\<close>

definition parse_nozzle_data ::
  "re_search \<Rightarrow> re_search \<Rightarrow> string \<Rightarrow> EquipmentData \<Rightarrow> EquipmentData" where
  "parse_nozzle_data search_solids search_cleanout pdf_text data =
     (let nozzle_map = AList.update ''413'' nozzle_413 (AList.update ''412'' nozzle_412 []);
          lines = split_newline pdf_text;
          nozzle_map' = foldl (scan_line search_solids search_cleanout) nozzle_map lines
      in data\<lparr>ed_nozzles := Some (map snd nozzle_map')\<rparr>)"

text \<open>
  The record \<^verbatim>\<open>_parse_equipment_data\<close> starts from:
  \<^verbatim>\<open>EquipmentData(tag_number="", service="", equipment_type="cyclone")\<close>.
\<close>

definition initial_equipment_data :: EquipmentData where
  "initial_equipment_data =
     \<lparr> ed_tag_number = [], ed_service = [], ed_equipment_type = ''cyclone'',
       ed_manufacturer = None, ed_model = None, ed_flow_rate = None, ed_flow_unit = None,
       ed_temperature = None, ed_pressure = None, ed_density = None,
       ed_design_pressure = None, ed_design_temperature = None, ed_material = None,
       ed_nozzles = None, ed_efficiency = None, ed_pressure_drop = None,
       ed_inlet_velocity = None, ed_dimensions = None \<rparr>"

section \<open>The separation-efficiency curve\<close>

lemma calculate_efficiency_pos:
  "0 < p \<Longrightarrow> 0 < d \<Longrightarrow> calculate_efficiency p d = Inr (100 / (1 + (d / p) powr 2.5))"
  by (simp add: calculate_efficiency_def Let_def not_less)

lemma barth_antimono:
  fixes x y :: real
  assumes "0 \<le> x" "x < y"
  shows "100 / (1 + y powr 2.5) < 100 / (1 + x powr 2.5)"
proof -
  have "x powr 2.5 < y powr 2.5"
    using assms by (intro powr_less_mono2) auto
  moreover have "0 < 1 + x powr 2.5" "0 < 1 + y powr 2.5"
    by (simp_all add: add_pos_nonneg)
  ultimately show ?thesis
    by (simp add: divide_strict_left_mono)
qed

text \<open>
  C1. On positive arguments \<^verbatim>\<open>calculate_efficiency\<close> returns a number (it neither raises
  nor leaves the reals); for a fixed positive \<open>d50\<close> it is strictly increasing in the
  particle size, for a fixed positive particle size it is strictly decreasing in \<open>d50\<close>,
  and when both arguments are the same positive number it is exactly 50.
\<close>

theorem efficiency_monotone_and_midpoint:
  "(0 < d \<and> 0 < p1 \<and> p1 < p2 \<longrightarrow>
      (\<exists>e1 e2. calculate_efficiency p1 d = Inr e1 \<and> calculate_efficiency p2 d = Inr e2
         \<and> e1 < e2))
   \<and> (0 < p \<and> 0 < d1 \<and> d1 < d2 \<longrightarrow>
      (\<exists>e1 e2. calculate_efficiency p d1 = Inr e1 \<and> calculate_efficiency p d2 = Inr e2
         \<and> e2 < e1))
   \<and> (0 < x \<longrightarrow> calculate_efficiency x x = Inr 50)"
proof (intro conjI impI)
  assume a: "0 < d \<and> 0 < p1 \<and> p1 < p2"
  then have lt: "d / p2 < d / p1"
    by (simp add: divide_strict_left_mono)
  have nn: "0 \<le> d / p2"
    using a by simp
  have "100 / (1 + (d / p1) powr 2.5) < 100 / (1 + (d / p2) powr 2.5)"
    using nn lt by (rule barth_antimono)
  then show "\<exists>e1 e2. calculate_efficiency p1 d = Inr e1 \<and> calculate_efficiency p2 d = Inr e2
      \<and> e1 < e2"
    using a by (simp add: calculate_efficiency_pos)
next
  assume a: "0 < p \<and> 0 < d1 \<and> d1 < d2"
  then have lt: "d1 / p < d2 / p"
    by (simp add: divide_strict_right_mono)
  have nn: "0 \<le> d1 / p"
    using a by simp
  have "100 / (1 + (d2 / p) powr 2.5) < 100 / (1 + (d1 / p) powr 2.5)"
    using nn lt by (rule barth_antimono)
  then show "\<exists>e1 e2. calculate_efficiency p d1 = Inr e1 \<and> calculate_efficiency p d2 = Inr e2
      \<and> e2 < e1"
    using a by (simp add: calculate_efficiency_pos)
next
  assume "0 < x"
  then show "calculate_efficiency x x = Inr 50"
    by (simp add: calculate_efficiency_pos)
qed

theorem efficiency_monotone_and_midpoint_witness:
  "(\<exists>e1 e2. calculate_efficiency 1 5 = Inr e1 \<and> calculate_efficiency 10 5 = Inr e2 \<and> e1 < e2)
   \<and> (\<exists>e1 e2. calculate_efficiency 10 5 = Inr e1 \<and> calculate_efficiency 10 7 = Inr e2
        \<and> e2 < e1)
   \<and> calculate_efficiency 5 5 = Inr 50"
  using efficiency_monotone_and_midpoint [of 5 1 10 10 5 7 5] by simp

section \<open>The geometry calculators\<close>

text \<open>
  C2. For every positive base diameter \<open>D\<close> the ratio block of \<^verbatim>\<open>_calculate_geometry\<close>
  constructs a geometry (the constructor does not raise) whose cylinder height is
  \<open>1.5 D\<close>, cone height \<open>2.5 D\<close>, cone outlet diameter \<open>0.375 D\<close>, gas outlet diameter
  \<open>0.5 D\<close>, gas outlet height \<open>0.5 D\<close> and whose solids outlet diameter is the cone
  outlet diameter; the FreeCAD variant returns the same values except for the gas outlet
  height \<open>0.625 D\<close>. In both, the cone outlet diameter is below \<open>D\<close> and the cylinder
  height above it. (\<^verbatim>\<open>_calculate_geometry\<close> runs the block at the literal 279.0, the
  FreeCAD variant at \<^verbatim>\<open>model_size * 25.4\<close>.)
\<close>

theorem geometry_ratio_laws:
  assumes "0 < D"
  shows "(\<exists>g. geometry_from_base D ih iw nzs = Inr g
            \<and> cylinder_diameter g = D
            \<and> cylinder_height g = D * 1.5
            \<and> cone_height g = D * 2.5
            \<and> cone_outlet_diameter g = D * 0.375
            \<and> gas_outlet_diameter g = D * 0.5
            \<and> gas_outlet_height g = D * 0.5
            \<and> solids_outlet_diameter g = cone_outlet_diameter g
            \<and> cone_outlet_diameter g < D \<and> D < cylinder_height g)
       \<and> (let p = precise_from_base D ih iw in
              fc_cylinder_diameter p = D
            \<and> fc_cylinder_height p = D * 1.5
            \<and> fc_cone_height p = D * 2.5
            \<and> fc_cone_outlet_diameter p = D * 0.375
            \<and> fc_gas_outlet_diameter p = D * 0.5
            \<and> fc_gas_outlet_height p = D * 0.625
            \<and> fc_solids_outlet_diameter p = fc_cone_outlet_diameter p
            \<and> fc_cone_outlet_diameter p < D \<and> D < fc_cylinder_height p)"
  using assms
  by (simp add: geometry_from_base_def post_init_def validate_def precise_from_base_def Let_def)

theorem geometry_ratio_laws_witness:
  "(\<exists>g. calculate_geometry None [] = Inr g
      \<and> cylinder_diameter g = 279
      \<and> cylinder_height g = 418.5
      \<and> cone_height g = 697.5
      \<and> cone_outlet_diameter g = 104.625
      \<and> gas_outlet_diameter g = 139.5
      \<and> gas_outlet_height g = 139.5
      \<and> solids_outlet_diameter g = 104.625)
   \<and> fc_cylinder_diameter (calculate_precise_dimensions 10 279 140) = 254
   \<and> fc_cylinder_height (calculate_precise_dimensions 10 279 140) = 381
   \<and> fc_cone_outlet_diameter (calculate_precise_dimensions 10 279 140) = 95.25
   \<and> fc_gas_outlet_height (calculate_precise_dimensions 10 279 140) = 158.75
   \<and> fc_solids_outlet_diameter (calculate_precise_dimensions 10 279 140) = 95.25"
  using geometry_ratio_laws [of 279 279 140 "[]"] geometry_ratio_laws [of 254 279 140 "[]"]
  by (auto simp: calculate_geometry_def calculate_precise_dimensions_def Let_def)

text \<open>
  C3. The constructor of the geometry record raises exactly when the cylinder diameter
  is not positive or the cone outlet diameter is not strictly below the cylinder
  diameter. When it succeeds, the object holds the fields it was given, a missing nozzle
  list apart, which has become the empty list; the result depends on the arguments only.
\<close>

theorem constructor_validation:
  "((\<exists>e. post_init g = Inl e) \<longleftrightarrow>
      (cylinder_diameter g \<le> 0 \<or> \<not> cone_outlet_diameter g < cylinder_diameter g))
   \<and> (\<forall>g'. post_init g = Inr g' \<longrightarrow>
         g' = g\<lparr>nozzles := Some (case nozzles g of None \<Rightarrow> [] | Some ns \<Rightarrow> ns)\<rparr>)"
  by (cases "nozzles g") (auto simp: post_init_def validate_def Let_def split: sum.splits)

theorem constructor_validation_witness:
  "(\<exists>e. post_init \<lparr> cylinder_diameter = 100, cylinder_height = 150, cone_height = 250,
        cone_outlet_diameter = 100, inlet_width = 140, inlet_height = 279, inlet_length = 50,
        gas_outlet_diameter = 50, gas_outlet_height = 50, solids_outlet_diameter = 100,
        wall_thickness = 10, nozzles = None \<rparr> = Inl e)
   \<and> (\<exists>e. post_init \<lparr> cylinder_diameter = 0, cylinder_height = 0, cone_height = 0,
        cone_outlet_diameter = - 1, inlet_width = 140, inlet_height = 279, inlet_length = 0,
        gas_outlet_diameter = 0, gas_outlet_height = 0, solids_outlet_diameter = - 1,
        wall_thickness = 10, nozzles = None \<rparr> = Inl e)
   \<and> post_init \<lparr> cylinder_diameter = 100, cylinder_height = 150, cone_height = 250,
        cone_outlet_diameter = 37.5, inlet_width = 140, inlet_height = 279, inlet_length = 50,
        gas_outlet_diameter = 50, gas_outlet_height = 50, solids_outlet_diameter = 37.5,
        wall_thickness = 10, nozzles = None \<rparr>
     = Inr \<lparr> cylinder_diameter = 100, cylinder_height = 150, cone_height = 250,
        cone_outlet_diameter = 37.5, inlet_width = 140, inlet_height = 279, inlet_length = 50,
        gas_outlet_diameter = 50, gas_outlet_height = 50, solids_outlet_diameter = 37.5,
        wall_thickness = 10, nozzles = Some [] \<rparr>"
proof -
  let ?equal = "\<lparr> cylinder_diameter = 100, cylinder_height = 150, cone_height = 250,
        cone_outlet_diameter = 100, inlet_width = 140, inlet_height = 279, inlet_length = 50,
        gas_outlet_diameter = 50, gas_outlet_height = 50, solids_outlet_diameter = 100,
        wall_thickness = 10, nozzles = None \<rparr>"
  let ?zero = "\<lparr> cylinder_diameter = 0, cylinder_height = 0, cone_height = 0,
        cone_outlet_diameter = - 1, inlet_width = 140, inlet_height = 279, inlet_length = 0,
        gas_outlet_diameter = 0, gas_outlet_height = 0, solids_outlet_diameter = - 1,
        wall_thickness = 10, nozzles = None \<rparr>"
  let ?good = "\<lparr> cylinder_diameter = 100, cylinder_height = 150, cone_height = 250,
        cone_outlet_diameter = 37.5, inlet_width = 140, inlet_height = 279, inlet_length = 50,
        gas_outlet_diameter = 50, gas_outlet_height = 50, solids_outlet_diameter = 37.5,
        wall_thickness = 10, nozzles = None \<rparr>"
  have "\<exists>e. post_init ?equal = Inl e"
    using constructor_validation [of ?equal] by simp
  moreover have "\<exists>e. post_init ?zero = Inl e"
    using constructor_validation [of ?zero] by simp
  moreover have "\<not> (\<exists>e. post_init ?good = Inl e)"
    using constructor_validation [of ?good] by simp
  then obtain g' where "post_init ?good = Inr g'"
    by (cases "post_init ?good") auto
  then have "post_init ?good = Inr (?good\<lparr>nozzles := Some []\<rparr>)"
    using constructor_validation [of ?good] by simp
  ultimately show ?thesis
    by simp
qed

section \<open>Parallel and series operation\<close>

lemma calculate_cut_size_pos: "0 < r \<Longrightarrow> calculate_cut_size r b = Inr (b / sqrt r)"
  by (simp add: calculate_cut_size_def)

lemma sqrt2_lower: "1.414 < sqrt 2"
  by (rule real_less_rsqrt) (simp add: power2_eq_square)

lemma sqrt2_upper: "sqrt 2 < 1.415"
  by (rule real_less_lsqrt) (simp_all add: power2_eq_square)

lemma five_over_sqrt_half: "5 / sqrt (1 / 2) = 5 * sqrt 2"
  by (simp add: real_sqrt_divide)

lemma cut_size_two_approx: "\<bar>5 / sqrt (1 / 2) - 7.07\<bar> < (0.005 :: real)"
  using sqrt2_lower sqrt2_upper unfolding five_over_sqrt_half by (simp add: abs_less_iff)

text \<open>
  C4. For every number \<open>n \<ge> 2\<close> of parallel units the branch runs without an error and
  gives: flow per unit = base flow / \<open>n\<close>, velocity per unit = base velocity / \<open>n\<close>,
  pressure drop per unit = base pressure drop times \<open>(1/n)\<^sup>2\<close>. \<^verbatim>\<open>calculate_cut_size\<close> at the
  flow ratio \<open>1/n\<close> is \<open>base_d50 / sqrt (1/n)\<close> for every \<open>base_d50\<close>, and the cut size of the
  branch is that value at the default \<open>base_d50 = 5.0\<close>; for \<open>n = 2\<close> it is
  \<open>5.0 / sqrt 0.5\<close>, within 0.005 of 7.07.
\<close>

theorem parallel_units_scaling:
  assumes "2 \<le> n"
  shows "\<exists>r. tab4_parallel data n = Inr (Some r)
     \<and> flow_per_unit r = base_flow data / real n
     \<and> velocity_per_unit r = base_velocity data / real n
     \<and> dp_per_unit r = base_dp data * (1 / real n) ^ 2
     \<and> calculate_cut_size (1 / real n) base_d50 = Inr (base_d50 / sqrt (1 / real n))
     \<and> calculate_cut_size (1 / real n) 5.0 = Inr (d50_parallel r)
     \<and> (n = 2 \<longrightarrow> d50_parallel r = 5.0 / sqrt 0.5 \<and> \<bar>d50_parallel r - 7.07\<bar> < 0.005)"
proof -
  from assms have n: "0 < 1 / real n" "1 < n"
    by simp_all
  define d where "d = 5 / sqrt (1 / real n)"
  have dpos: "0 < d"
    using n unfolding d_def by simp
  have cs: "calculate_cut_size (1 / real n) 5.0 = Inr d"
    using calculate_cut_size_pos [OF n(1), of 5] by (simp add: d_def)
  have ce: "calculate_efficiency 10 d = Inr (100 / (1 + (d / 10) powr 2.5))"
    using dpos by (simp add: calculate_efficiency_pos)
  have near: "n = 2 \<Longrightarrow> \<bar>d - 7.07\<bar> < 0.005"
    using cut_size_two_approx by (simp add: d_def)
  have exact: "n = 2 \<Longrightarrow> d = 5 / sqrt 0.5"
    by (simp add: d_def)
  show ?thesis
    using n cs ce near exact calculate_cut_size_pos [OF n(1), of base_d50]
    by (simp add: tab4_parallel_def)
qed

theorem parallel_units_scaling_witness:
  "\<exists>r. tab4_parallel Map.empty 2 = Inr (Some r)
     \<and> flow_per_unit r = 335.5
     \<and> velocity_per_unit r = 10
     \<and> dp_per_unit r = 0.08925
     \<and> calculate_cut_size (1 / 2) 5.0 = Inr (d50_parallel r)
     \<and> d50_parallel r = 5.0 / sqrt 0.5
     \<and> \<bar>d50_parallel r - 7.07\<bar> < 0.005"
  using parallel_units_scaling [of 2 Map.empty 5]
  by (auto simp: base_flow_def base_velocity_def base_dp_def data_get_def power2_eq_square)

lemma collect_particle_sizes:
  "collect (map (\<lambda>size. case calculate_efficiency size 5.0 of Inl e \<Rightarrow> Inl e
                         | Inr eff \<Rightarrow> Inr (f eff)) [1, 5, 10, 20])
   = Inr (map (\<lambda>size. f (100 / (1 + (5 / size) powr 2.5))) [1, 5, 10, 20])"
  by (simp add: calculate_efficiency_pos)

text \<open>
  C5. For every number \<open>n \<ge> 2\<close> of series stages the branch runs without an error and
  gives: total pressure drop = base pressure drop times \<open>n\<close>; with the stage efficiency
  \<open>e\<close> (the efficiency entry, default 99.2, divided by 100) the total efficiency is
  \<open>1 - (1 - e)\<^sup>n\<close>, whatever \<open>e\<close> is, so in particular for \<open>e\<close> in \<open>[0, 1]\<close>; for
  \<open>e = 0.5\<close> and \<open>n = 2\<close> it is exactly 0.75.
\<close>

theorem series_stages_compounding:
  assumes "2 \<le> n"
  shows "\<exists>r. tab4_series data n = Inr (Some r)
     \<and> total_dp r = base_dp data * real n
     \<and> stage_eff r = data_get data ''efficiency'' 99.2 / 100
     \<and> total_eff r = 1 - (1 - stage_eff r) ^ n
     \<and> (n = 2 \<and> stage_eff r = 0.5 \<longrightarrow> total_eff r = 0.75)"
proof -
  from assms have "1 < n"
    by simp
  then show ?thesis
    unfolding tab4_series_def Let_def collect_particle_sizes
    by (simp add: power2_eq_square)
qed

theorem series_stages_compounding_witness:
  "\<exists>r. tab4_series [''efficiency'' \<mapsto> 50] 2 = Inr (Some r)
     \<and> total_dp r = 0.714
     \<and> stage_eff r = 0.5
     \<and> total_eff r = 0.75"
  using series_stages_compounding [of 2 "[''efficiency'' \<mapsto> 50]"]
  by (auto simp: base_dp_def data_get_def power2_eq_square)

section \<open>Performance under a changed flow\<close>

text \<open>
  C6. When the base flow is positive, tab 3 runs without an error and gives:
  flow ratio = new flow / base flow, new velocity = base velocity times the ratio, new
  pressure drop = base pressure drop times the ratio squared, and predicted efficiency
  = \<open>max 85 (base efficiency - 2 |ratio - 1|)\<close>. With a base pressure drop of 0.357 and
  a ratio of 1.2 the new pressure drop is \<open>0.357 \<times> 1.44 = 0.51408\<close>.
\<close>

theorem flow_ratio_scaling:
  assumes "0 < base_flow data"
  shows "\<exists>r. tab3_performance data new_flow = Inr r
     \<and> flow_ratio r = of_int new_flow / base_flow data
     \<and> new_velocity r = base_velocity data * flow_ratio r
     \<and> new_dp r = base_dp data * (flow_ratio r) ^ 2
     \<and> new_eff r = max 85 (data_get data ''efficiency'' 99.2 - 2 * \<bar>flow_ratio r - 1\<bar>)
     \<and> (base_dp data = 0.357 \<and> flow_ratio r = 1.2 \<longrightarrow>
          new_dp r = 0.357 * 1.44 \<and> new_dp r = 0.51408)"
proof -
  define q where "q = of_int new_flow / base_flow data"
  define r where "r = \<lparr> flow_ratio = q,
                      new_velocity = base_velocity data * q,
                      new_dp = base_dp data * q ^ 2,
                      eff_change = - 2 * \<bar>q - 1\<bar>,
                      new_eff = max 85 (data_get data ''efficiency'' 99.2 + - 2 * \<bar>q - 1\<bar>) \<rparr>"
  have run: "tab3_performance data new_flow = Inr r"
    using assms by (simp add: tab3_performance_def Let_def r_def q_def)
  have special: "new_dp r = 0.357 * 1.44 \<and> new_dp r = 0.51408"
    if "base_dp data = 0.357" "flow_ratio r = 1.2"
  proof -
    from that have q: "q = 1.2"
      by (simp add: r_def)
    have "new_dp r = base_dp data * q ^ 2"
      by (simp add: r_def)
    then have "new_dp r = 0.357 * 1.2 ^ 2"
      by (simp only: q that(1))
    then show ?thesis
      by (simp add: power2_eq_square)
  qed
  show ?thesis
    using run special by (intro exI [of _ r]) (simp add: r_def q_def)
qed

theorem flow_ratio_scaling_witness:
  "\<exists>r. tab3_performance [''flow_rate'' \<mapsto> 1000] 1200 = Inr r
     \<and> flow_ratio r = 1.2
     \<and> new_velocity r = 24
     \<and> new_dp r = 0.51408
     \<and> new_eff r = 98.8"
  using flow_ratio_scaling [of "[''flow_rate'' \<mapsto> 1000]" 1200]
  by (auto simp: base_flow_def base_dp_def base_velocity_def data_get_def power2_eq_square)

section \<open>Blockage and erosion\<close>

text \<open>
  C7. For every blockage percentage \<open>b\<close> with \<open>0 < b < 100\<close> the branch runs without an
  error and gives: area factor = \<open>1 - b/100\<close>, blocked velocity = base velocity divided by
  the area factor, blocked pressure drop = base pressure drop divided by the area factor
  squared. At \<open>b = 50\<close> the area factor is 0.5, the velocity exactly twice and the
  pressure drop exactly four times the base value.
\<close>

theorem blockage_scaling:
  assumes "0 < b" "b < 100"
  shows "\<exists>r. tab6_blockage data b = Inr (Some r)
     \<and> area_factor r = 1 - of_int b / 100
     \<and> blocked_velocity r = base_velocity data / area_factor r
     \<and> blocked_dp r = base_dp data / (area_factor r) ^ 2
     \<and> (b = 50 \<longrightarrow> area_factor r = 0.5 \<and> blocked_velocity r = 2 * base_velocity data
                    \<and> blocked_dp r = 4 * base_dp data)"
  using assms by (simp add: tab6_blockage_def Let_def power2_eq_square)

theorem blockage_scaling_witness:
  "\<exists>r. tab6_blockage Map.empty 50 = Inr (Some r)
     \<and> area_factor r = 0.5
     \<and> blocked_velocity r = 40
     \<and> blocked_dp r = 1.428"
  using blockage_scaling [of 50 Map.empty]
  by (auto simp: base_dp_def base_velocity_def data_get_def power2_eq_square)

text \<open>
  C8. For every number \<open>h > 0\<close> of operating hours and every base velocity the branch
  gives: erosion rate = \<open>(velocity / 20)\<^sup>3\<close>, thickness loss = rate times \<open>h / 8760\<close>,
  efficiency degradation = \<open>min 10 (loss \<times> 0.5)\<close>, and predicted efficiency = the base
  efficiency minus the degradation, but at least 80.
\<close>

theorem erosion_wear_prediction:
  assumes "0 < h"
  shows "\<exists>r. tab6_erosion data h = Some r
     \<and> erosion_rate r = (base_velocity data / 20) ^ 3
     \<and> thickness_loss r = erosion_rate r * (of_int h / 8760)
     \<and> eff_degradation r = min 10 (thickness_loss r * 0.5)
     \<and> predicted_eff r = max 80 (data_get data ''efficiency'' 99.2 - eff_degradation r)"
  using assms by (simp add: tab6_erosion_def Let_def)

theorem erosion_wear_prediction_witness:
  "\<exists>r. tab6_erosion Map.empty 8760 = Some r
     \<and> erosion_rate r = 1
     \<and> thickness_loss r = 1
     \<and> eff_degradation r = 0.5
     \<and> predicted_eff r = 98.7"
  using erosion_wear_prediction [of 8760 Map.empty]
  by (auto simp: base_velocity_def data_get_def)

section \<open>The composite risk score\<close>

lemma classify_risk_bands:
  "(classify_risk avg = Safe \<longleftrightarrow> 70 < avg)
   \<and> (classify_risk avg = Caution \<longleftrightarrow> 40 < avg \<and> avg \<le> 70)
   \<and> (classify_risk avg = Danger \<longleftrightarrow> avg \<le> 40)"
  by (simp add: classify_risk_def)

text \<open>
  C9. Whatever the two margins and the data are, \<^verbatim>\<open>risk_scores\<close> holds five sub-scores
  (pressure margin, temperature margin, inlet velocity, pressure drop, efficiency), each
  set by fixed cutoffs: the pressure margin scores 100 above 100, 50 above 50, else 20;
  the temperature margin 100 above 50, 50 above 30, else 20; the inlet velocity 100
  below 20, 50 below 22, else 20; the pressure drop 100 below 0.5, 50 below 0.7, else
  20; the efficiency 100 above 95, else 50. So each is one of 100, 50 and 20. Their mean
  is a number, the sum of the five divided by 5, and lies between 0 and 100; it is
  classified safe exactly when above 70, caution exactly when above 40 and at most 70,
  and into the third band exactly when at most 40. When all five sub-scores are 100 the
  mean is 100 and the band is safe. When the two margins of tab 2 are computed without
  an error, the whole assessment returns these scores, this mean and its band.
\<close>

theorem composite_risk_score:
  "\<exists>a b c d e avg. risk_scores mp mt data =
      [(PressureMargin, a), (TemperatureMargin, b), (InletVelocity, c), (PressureDrop, d),
       (Efficiency, e)]
    \<and> a = (if mp > 100 then 100 else if mp > 50 then 50 else 20)
    \<and> b = (if mt > 50 then 100 else if mt > 30 then 50 else 20)
    \<and> c = (if base_velocity data < 20 then 100 else if base_velocity data < 22 then 50 else 20)
    \<and> d = (if base_dp data < 0.5 then 100 else if base_dp data < 0.7 then 50 else 20)
    \<and> e = (if data_get data ''efficiency'' 99.2 > 95 then 100 else 50)
    \<and> (\<forall>s \<in> {a, b, c, d, e}. s \<in> {100, 50, 20})
    \<and> avg_risk (risk_scores mp mt data) = Inr avg
    \<and> avg = of_int (a + b + c + d + e) / 5
    \<and> 0 \<le> avg \<and> avg \<le> 100
    \<and> (classify_risk avg = Safe \<longleftrightarrow> 70 < avg)
    \<and> (classify_risk avg = Caution \<longleftrightarrow> 40 < avg \<and> avg \<le> 70)
    \<and> (classify_risk avg = Danger \<longleftrightarrow> avg \<le> 40)
    \<and> (a = 100 \<and> b = 100 \<and> c = 100 \<and> d = 100 \<and> e = 100 \<longrightarrow>
          avg = 100 \<and> classify_risk avg = Safe)
    \<and> (margin_p data = Inr mp \<and> margin_t data = Inr mt \<longrightarrow>
          risk_assessment data = Inr (risk_scores mp mt data, avg, classify_risk avg))"
proof -
  define a :: int where "a = (if mp > 100 then 100 else if mp > 50 then 50 else 20)"
  define b :: int where "b = (if mt > 50 then 100 else if mt > 30 then 50 else 20)"
  define c :: int where
    "c = (if base_velocity data < 20 then 100 else if base_velocity data < 22 then 50 else 20)"
  define d :: int where
    "d = (if base_dp data < 0.5 then 100 else if base_dp data < 0.7 then 50 else 20)"
  define e :: int where "e = (if data_get data ''efficiency'' 99.2 > 95 then 100 else 50)"
  define avg :: real where "avg = of_int (a + b + c + d + e) / 5"
  have rs: "risk_scores mp mt data =
      [(PressureMargin, a), (TemperatureMargin, b), (InletVelocity, c), (PressureDrop, d),
       (Efficiency, e)]"
    unfolding risk_scores_def a_def b_def c_def d_def e_def by (rule refl)
  have v: "a \<in> {100, 50, 20}" "b \<in> {100, 50, 20}" "c \<in> {100, 50, 20}"
      "d \<in> {100, 50, 20}" "e \<in> {100, 50}"
    by (simp_all add: a_def b_def c_def d_def e_def)
  have mem: "\<forall>s \<in> {a, b, c, d, e}. s \<in> {100, 50, 20}"
    using v by auto
  have av: "avg_risk (risk_scores mp mt data) = Inr avg"
    by (simp add: rs avg_risk_def avg_def)
  have lo: "100 \<le> a + b + c + d + e" and hi: "a + b + c + d + e \<le> 500"
    using v by auto
  have r: "0 \<le> avg" "avg \<le> 100"
    using lo hi by (simp_all add: avg_def)
  have all100: "a = 100 \<and> b = 100 \<and> c = 100 \<and> d = 100 \<and> e = 100 \<longrightarrow>
      avg = 100 \<and> classify_risk avg = Safe"
    by (simp add: avg_def classify_risk_def)
  have whole: "margin_p data = Inr mp \<and> margin_t data = Inr mt \<longrightarrow>
      risk_assessment data = Inr (risk_scores mp mt data, avg, classify_risk avg)"
    using av by (simp add: risk_assessment_def Let_def)
  have bands: "(classify_risk avg = Safe \<longleftrightarrow> 70 < avg)"
    "(classify_risk avg = Caution \<longleftrightarrow> 40 < avg \<and> avg \<le> 70)"
    "(classify_risk avg = Danger \<longleftrightarrow> avg \<le> 40)"
    using classify_risk_bands [of avg] by simp_all
  show ?thesis
    apply (rule exI [of _ a], rule exI [of _ b], rule exI [of _ c], rule exI [of _ d],
        rule exI [of _ e], rule exI [of _ avg])
    apply (intro conjI)
    apply (rule rs a_def b_def c_def d_def e_def mem av avg_def r bands all100 whole)+
    done
qed

theorem composite_risk_score_witness:
  "risk_scores 150 60 [''inlet_velocity'' \<mapsto> 18] =
      [(PressureMargin, 100), (TemperatureMargin, 100), (InletVelocity, 100),
       (PressureDrop, 100), (Efficiency, 100)]
   \<and> avg_risk (risk_scores 150 60 [''inlet_velocity'' \<mapsto> 18]) = Inr 100
   \<and> classify_risk 100 = Safe
   \<and> risk_scores 40 35
        [''inlet_velocity'' \<mapsto> 23, ''pressure_drop'' \<mapsto> 0.6, ''efficiency'' \<mapsto> 90] =
      [(PressureMargin, 20), (TemperatureMargin, 50), (InletVelocity, 20),
       (PressureDrop, 50), (Efficiency, 50)]
   \<and> avg_risk (risk_scores 40 35
        [''inlet_velocity'' \<mapsto> 23, ''pressure_drop'' \<mapsto> 0.6, ''efficiency'' \<mapsto> 90])
      = Inr 38
   \<and> classify_risk 38 = Danger"
  using composite_risk_score [of 150 60 "[''inlet_velocity'' \<mapsto> 18]"]
    composite_risk_score [of 40 35
      "[''inlet_velocity'' \<mapsto> 23, ''pressure_drop'' \<mapsto> 0.6, ''efficiency'' \<mapsto> 90]"]
  by (auto simp: risk_scores_def base_velocity_def base_dp_def data_get_def)

section \<open>The nozzle list of the parser\<close>

lemma found_key_not_fixed:
  "found_key ''Solids'' g \<noteq> ''412''" "found_key ''Solids'' g \<noteq> ''413''"
  "found_key ''Cleanout'' g \<noteq> ''412''" "found_key ''Cleanout'' g \<noteq> ''413''"
  by (cases g; simp add: found_key_def)+

lemma scan_line_keeps_head:
  "\<exists>rest'. scan_line ss sc ((''412'', a) # (''413'', b) # rest) line
     = (''412'', a) # (''413'', b) # rest'"
  unfolding scan_line_def
  by (simp split: option.splits add: found_key_not_fixed found_key_not_fixed [symmetric])

lemma foldl_scan_keeps_head:
  "\<exists>rest'. foldl (scan_line ss sc) ((''412'', a) # (''413'', b) # rest) lines
     = (''412'', a) # (''413'', b) # rest'"
proof (induction lines arbitrary: rest)
  case Nil
  show ?case by simp
next
  case (Cons l ls)
  obtain r1 where
    "scan_line ss sc ((''412'', a) # (''413'', b) # rest) l = (''412'', a) # (''413'', b) # r1"
    using scan_line_keeps_head by blast
  with Cons.IH [of r1] show ?case by simp
qed

text \<open>
  C10. For every text and whatever the two pattern searches find in its lines, the
  nozzle list that \<^verbatim>\<open>_parse_nozzle_data\<close> stores starts with the nozzle tagged 412
  (service Gas Inlet, size 14 inches, rating 300#, facing RF) followed by the nozzle
  tagged 413 (service Gas Outlet, size 14 inches, rating 300#, facing RF); so it has at
  least two entries and is not empty.
\<close>

theorem nozzles_412_413_always_present:
  "\<exists>rest. ed_nozzles (parse_nozzle_data ss sc pdf_text data)
            = Some (nozzle_412 # nozzle_413 # rest)
     \<and> 2 \<le> length (nozzle_412 # nozzle_413 # rest)
     \<and> nozzle_412 # nozzle_413 # rest \<noteq> []
     \<and> map_of nozzle_412 = [''tag'' \<mapsto> ''412'', ''service'' \<mapsto> ''Gas Inlet'',
          ''size'' \<mapsto> ''14'' @ [dquote], ''rating'' \<mapsto> ''300#'', ''facing'' \<mapsto> ''RF'']
     \<and> map_of nozzle_413 = [''tag'' \<mapsto> ''413'', ''service'' \<mapsto> ''Gas Outlet'',
          ''size'' \<mapsto> ''14'' @ [dquote], ''rating'' \<mapsto> ''300#'', ''facing'' \<mapsto> ''RF'']"
proof -
  obtain r where "foldl (scan_line ss sc) [(''412'', nozzle_412), (''413'', nozzle_413)]
       (split_newline pdf_text)
     = (''412'', nozzle_412) # (''413'', nozzle_413) # r"
    using foldl_scan_keeps_head by blast
  then have "ed_nozzles (parse_nozzle_data ss sc pdf_text data)
      = Some (nozzle_412 # nozzle_413 # map snd r)"
    by (simp add: parse_nozzle_data_def)
  moreover have "map_of nozzle_412 = [''tag'' \<mapsto> ''412'', ''service'' \<mapsto> ''Gas Inlet'',
      ''size'' \<mapsto> ''14'' @ [dquote], ''rating'' \<mapsto> ''300#'', ''facing'' \<mapsto> ''RF'']"
    by (auto simp: nozzle_412_def fun_eq_iff)
  moreover have "map_of nozzle_413 = [''tag'' \<mapsto> ''413'', ''service'' \<mapsto> ''Gas Outlet'',
      ''size'' \<mapsto> ''14'' @ [dquote], ''rating'' \<mapsto> ''300#'', ''facing'' \<mapsto> ''RF'']"
    by (auto simp: nozzle_413_def fun_eq_iff)
  ultimately show ?thesis
    by simp
qed

theorem nozzles_412_413_always_present_witness:
  "ed_nozzles (parse_nozzle_data (\<lambda>line. None) (\<lambda>line. None) ''no nozzle here''
       initial_equipment_data)
     = Some [nozzle_412, nozzle_413]
   \<and> ed_nozzles (parse_nozzle_data
         (\<lambda>line. Some (''Solids Outlet to Purge Column'', ''6'', ''300#'', ''RF''))
         (\<lambda>line. None)
         (''NOZZLE SCHEDULE'' @ [newline] @ ''Solids Solids Outlet to Purge Column 6''
            @ [dquote] @ '' 300# RF'')
         initial_equipment_data)
     = Some [nozzle_412, nozzle_413,
             [(''service'', ''Solids Solids Outlet to Purge Column''),
              (''size'', ''6'' @ [dquote]), (''rating'', ''300#''), (''facing'', ''RF'')]]"
  using nozzles_412_413_always_present
    [of "\<lambda>line. None" "\<lambda>line. None" "''no nozzle here''" initial_equipment_data]
  by (auto simp: parse_nozzle_data_def scan_line_def newline_def dquote_def found_key_def
      found_nozzle_def strip_def is_space_def)

end
